theory Spec2Isabelle
  imports Main
begin

section \<open>The pre-deploy task of appservice/src/deploy/runPreDeployTask.ts\<close>

text \<open>
  The module finds the task named by the setting \<open><prefix>.preDeployTask\<close>, runs it, waits
  for a task-process-end event that ends the wait, and turns the outcome into control
  flow. The host (VS Code) is modelled as a record of what it answers; every call the
  module makes on the host is written to a trace, the telemetry properties of the action
  context are passed as state, a thrown error is the left summand of the outcome, and a
  promise that never resolves is \<open>None\<close>.

  JavaScript strings are modelled as \<open>string\<close> restricted to ASCII text.
\<close>

subsection \<open>Strings\<close>

text \<open>\<open>String.prototype.toLowerCase\<close> on ASCII text.\<close>

definition toLowerCaseChar :: "char \<Rightarrow> char" where
  "toLowerCaseChar c =
     (let n = (of_char c :: nat) in if 65 \<le> n \<and> n \<le> 90 then char_of (n + 32) else c)"

definition toLowerCase :: "string \<Rightarrow> string" where
  "toLowerCase s = map toLowerCaseChar s"

text \<open>The class \<open>\s\<close> of a regular expression on ASCII text: tab, line feed, vertical tab,
  form feed, carriage return and space.\<close>

definition isWhitespace :: "char \<Rightarrow> bool" where
  "isWhitespace c = (let n = (of_char c :: nat) in (9 \<le> n \<and> n \<le> 13) \<or> n = 32)"

text \<open>\<open>taskName.replace(/^[^:]*:\s*/, '')\<close>: when the name holds a colon, everything up
  to its first colon and the white space after that colon is removed; a name with no
  colon is left as it is.\<close>

definition taskNameWithoutSource :: "string \<Rightarrow> string" where
  "taskNameWithoutSource taskName =
     (case dropWhile (\<lambda>c. c \<noteq> CHR '':'') taskName of
        [] \<Rightarrow> taskName
      | _ # rest \<Rightarrow> dropWhile isWhitespace rest)"

text \<open>\<open>String(b)\<close> of a boolean, \<open>String(n)\<close> of an integral number, and of an optional
  value (\<open>undefined\<close> prints as its name, in a template literal as well).\<close>

definition String_boolean :: "bool \<Rightarrow> string" where
  "String_boolean b = (if b then ''true'' else ''false'')"

fun digits :: "nat \<Rightarrow> string" where
  "digits n = (if n < 10 then [char_of (48 + n)] else digits (n div 10) @ [char_of (48 + n mod 10)])"

declare digits.simps [simp del]

definition String_number :: "int \<Rightarrow> string" where
  "String_number i = (if i < 0 then CHR ''-'' # digits (nat (- i)) else digits (nat i))"

definition String_optional_number :: "int option \<Rightarrow> string" where
  "String_optional_number x = (case x of None \<Rightarrow> ''undefined'' | Some i \<Rightarrow> String_number i)"

definition String_optional_string :: "string option \<Rightarrow> string" where
  "String_optional_string x = (case x of None \<Rightarrow> ''undefined'' | Some s \<Rightarrow> s)"

text \<open>Modelled from the spec: \<open>localize\<close> (../localize) is not under src/. It is taken to
  return the default message it is given, with each \<open>{0}\<close> replaced by its argument.\<close>

fun format0 :: "string \<Rightarrow> string \<Rightarrow> string" where
  "format0 [] a = []"
| "format0 (c # cs) a =
     (if take 3 (c # cs) = ''{0}'' then a @ format0 (drop 2 cs) a else c # format0 cs a)"

definition localize :: "string \<Rightarrow> string \<Rightarrow> string list \<Rightarrow> string" where
  "localize key message args = (case args of [] \<Rightarrow> message | a # _ \<Rightarrow> format0 message a)"

subsection \<open>Paths\<close>

text \<open>Modelled from the spec: \<open>isPathEqual\<close> and \<open>isSubpath\<close> (../utils/pathUtils) are not
  under src/. The spec gives them as "string equality after path normalization" and "a
  prefix/ancestor relationship with proper path-segment boundaries -- not substring
  matching", on "normalized path-segment lists". A path is normalised here into its
  non-empty segments between separators \<open>/\<close>.\<close>

fun splitPath :: "string \<Rightarrow> string list" where
  "splitPath [] = [[]]"
| "splitPath (c # cs) =
     (if c = CHR ''/'' then [] # splitPath cs
      else (case splitPath cs of [] \<Rightarrow> [[c]] | seg # segs \<Rightarrow> (c # seg) # segs))"

definition pathSegments :: "string \<Rightarrow> string list" where
  "pathSegments p = filter (\<lambda>seg. seg \<noteq> []) (splitPath p)"

definition isPathEqual :: "string \<Rightarrow> string \<Rightarrow> bool" where
  "isPathEqual fsPath1 fsPath2 = (pathSegments fsPath1 = pathSegments fsPath2)"

definition isSubpath :: "string \<Rightarrow> string \<Rightarrow> bool" where
  "isSubpath expectedParent expectedChild =
     (let parent = pathSegments expectedParent; child = pathSegments expectedChild
      in length parent < length child \<and> take (length parent) child = parent)"

subsection \<open>The data of the host\<close>

text \<open>\<open>vscode.Task.scope\<close>: absent, one of the two numbers of the enum \<open>TaskScope\<close>, or a
  workspace folder. The source reads the folder as a \<open>Partial<WorkspaceFolder>\<close>, whose
  \<open>uri\<close> may be missing; a present \<open>uri\<close> is modelled by its \<open>fsPath\<close>.\<close>

datatype TaskScope = ScopeUndefined | Global | Workspace | WorkspaceFolder "string option"

text \<open>A task: \<open>ident\<close> stands for the identity of the object, which \<open>===\<close> compares.\<close>

record Task =
  ident :: nat
  name :: string
  scope :: TaskScope

text \<open>\<open>vscode.TaskProcessEndEvent\<close>: \<open>e.execution.task\<close> and \<open>e.exitCode\<close> (a process may
  end with no exit code).\<close>

datatype TaskProcessEndEvent =
  TaskProcessEndEvent (execution_task: Task) (process_exitCode: "int option")

record IPreDeployTaskResult =
  taskName :: "string option"
  exitCode :: "int option"
  failedToFindTask :: bool

record MessageItem =
  title :: string

text \<open>What the host answers during one invocation. \<open>ext_prefix\<close> is \<open>ext.prefix\<close>;
  \<open>configuration section path key\<close> is
  \<open>vscode.workspace.getConfiguration(section, Uri.file(path)).get(key)\<close>; \<open>registry\<close> is what
  \<open>vscode.tasks.fetchTasks()\<close> resolves to; \<open>processEnds\<close> are the events that
  \<open>vscode.tasks.onDidEndTaskProcess\<close> fires after the listener is registered, in order;
  \<open>clicked\<close> is the index of the button pressed in the modal dialog, \<open>None\<close> when it is
  dismissed.\<close>

record Host =
  ext_prefix :: string
  configuration :: "string \<Rightarrow> string \<Rightarrow> string \<Rightarrow> string option"
  registry :: "Task list"
  processEnds :: "TaskProcessEndEvent list"
  clicked :: "nat option"

text \<open>The calls made on the host, in the order they are made.\<close>

datatype Effect =
    AppendLog string
  | FetchTasks
  | WithProgress string
  | ExecuteTask Task
  | OnDidEndTaskProcess
  | ShowErrorMessage string bool "MessageItem list"
  | ExecuteCommand string

text \<open>\<open>context.telemetry.properties\<close> of the \<open>IActionContext\<close>.\<close>

record IActionContext =
  properties :: "string \<rightharpoonup> string"

datatype Error = Error string | UserCancelledError

text \<open>Modelled from the spec: the enum \<open>ScmType\<close> (../ScmType) is not under src/; the spec
  names its two server-side-build modes \<open>LocalGit\<close> and \<open>GitHub\<close>.\<close>

definition ScmType_LocalGit :: string where
  "ScmType_LocalGit = ''LocalGit''"

definition ScmType_GitHub :: string where
  "ScmType_GitHub = ''GitHub''"

subsection \<open>Matching a task\<close>

definition isTaskEqual :: "string \<Rightarrow> string \<Rightarrow> Task \<Rightarrow> bool" where
  "isTaskEqual expectedName expectedPath actualTask =
     (if toLowerCase expectedName = toLowerCase (name actualTask) \<and> scope actualTask \<noteq> ScopeUndefined
      then (case scope actualTask of
              WorkspaceFolder (Some fsPath) \<Rightarrow>
                isPathEqual fsPath expectedPath \<or> isSubpath fsPath expectedPath
            | _ \<Rightarrow> False)
      else False)"

definition isScopeEqual :: "Task \<Rightarrow> string \<Rightarrow> bool" where
  "isScopeEqual task workspaceFsPath =
     (case scope task of
        WorkspaceFolder uri \<Rightarrow>
          (case uri of
             Some fsPath \<Rightarrow> isPathEqual fsPath workspaceFsPath \<or> isSubpath fsPath workspaceFsPath
           | None \<Rightarrow> False)
      | _ \<Rightarrow> False)"

text \<open>\<open>tasks.find(exact) || tasks.find(withoutSource)\<close> of \<open>tryRunPreDeployTask\<close>.\<close>

definition findPreDeployTask :: "string \<Rightarrow> string \<Rightarrow> Task list \<Rightarrow> Task option" where
  "findPreDeployTask configuredName deployFsPath tasks =
     (case find (isTaskEqual configuredName deployFsPath) tasks of
        Some task \<Rightarrow> Some task
      | None \<Rightarrow> find (isTaskEqual (taskNameWithoutSource configuredName) deployFsPath) tasks)"

subsection \<open>Waiting for the task\<close>

text \<open>The promise of \<open>waitForPreDeployTask\<close> and its listener: \<open>attached\<close> until
  \<open>errorListener.dispose()\<close>, \<open>promise\<close> the value the promise resolved with.\<close>

record Wait =
  attached :: bool
  promise :: "IPreDeployTaskResult option"

text \<open>\<open>resolve\<close> settles a pending promise; a promise already settled keeps its value.\<close>

definition resolve :: "IPreDeployTaskResult \<Rightarrow> Wait \<Rightarrow> Wait" where
  "resolve r w = (case promise w of None \<Rightarrow> w\<lparr>promise := Some r\<rparr> | Some _ \<Rightarrow> w)"

definition dispose :: "Wait \<Rightarrow> Wait" where
  "dispose w = w\<lparr>attached := False\<rparr>"

text \<open>The callback given to \<open>onDidEndTaskProcess\<close>: two \<open>if\<close> statements in sequence, the
  second not an \<open>else\<close> of the first.\<close>

definition errorListener :: "Task \<Rightarrow> string \<Rightarrow> TaskProcessEndEvent \<Rightarrow> Wait \<Rightarrow> Wait" where
  "errorListener preDeployTask deployFsPath e w =
     (let w1 =
            (if isScopeEqual (execution_task e) deployFsPath \<and> process_exitCode e \<noteq> Some 0
             then resolve \<lparr>taskName = Some (name (execution_task e)),
                            exitCode = process_exitCode e, failedToFindTask = False\<rparr> (dispose w)
             else w)
      in if ident (execution_task e) = ident preDeployTask
         then resolve \<lparr>taskName = Some (name (execution_task e)),
                        exitCode = process_exitCode e, failedToFindTask = False\<rparr> (dispose w1)
         else w1)"

text \<open>The host fires each event at the listener for as long as it is attached.\<close>

fun fire :: "Task \<Rightarrow> string \<Rightarrow> TaskProcessEndEvent list \<Rightarrow> Wait \<Rightarrow> Wait" where
  "fire preDeployTask deployFsPath [] w = w"
| "fire preDeployTask deployFsPath (e # es) w =
     (if attached w then fire preDeployTask deployFsPath es (errorListener preDeployTask deployFsPath e w)
      else w)"

text \<open>\<open>waitForPreDeployTask\<close> on the events the host fires. The promise of the source is
  \<open>promise\<close> of the state returned: \<open>None\<close> when no event resolves it, and then the caller
  never resumes.\<close>

definition waitForPreDeployTask :: "Task \<Rightarrow> string \<Rightarrow> TaskProcessEndEvent list \<Rightarrow> Wait" where
  "waitForPreDeployTask preDeployTask deployFsPath events =
     fire preDeployTask deployFsPath events \<lparr>attached = True, promise = None\<rparr>"

subsection \<open>Running the task\<close>

definition preDeployTaskKey :: string where
  "preDeployTaskKey = ''preDeployTask''"

definition setProperty :: "string \<Rightarrow> string \<Rightarrow> IActionContext \<Rightarrow> IActionContext" where
  "setProperty k v context = context\<lparr>properties := (properties context)(k \<mapsto> v)\<rparr>"

text \<open>\<open>tryRunPreDeployTask\<close> returns the context, the calls made on the host, and the
  result the promise resolves with (\<open>None\<close> when the wait never ends). An empty string is
  falsy, as \<open>undefined\<close> is.\<close>

definition tryRunPreDeployTask ::
  "Host \<Rightarrow> IActionContext \<Rightarrow> string \<Rightarrow> string option \<Rightarrow>
   IActionContext \<times> Effect list \<times> IPreDeployTaskResult option" where
  "tryRunPreDeployTask host context deployFsPath scmType =
     (let configured = configuration host (ext_prefix host) deployFsPath preDeployTaskKey;
          truthy = (configured \<noteq> None \<and> configured \<noteq> Some []);
          context1 = setProperty ''hasPreDeployTask'' (String_boolean truthy) context;
          preDeployTaskResult = \<lparr>taskName = configured, exitCode = None, failedToFindTask = False\<rparr>
      in case configured of
           None \<Rightarrow> (context1, [], Some preDeployTaskResult)
         | Some tn \<Rightarrow>
             if tn = [] then (context1, [], Some preDeployTaskResult)
             else if scmType = Some ScmType_LocalGit \<or> scmType = Some ScmType_GitHub then
               (context1,
                [AppendLog (localize ''ignoringPreDeployTask''
                   ''WARNING: Ignoring preDeployTask \"{0}\" for non-zip deploy.'' [tn])],
                Some preDeployTaskResult)
             else
               (case findPreDeployTask tn deployFsPath (registry host) of
                  Some preDeployTask \<Rightarrow>
                    (let progressMessage =
                           localize ''runningTask'' ''Running preDeployTask \"{0}\"...'' [tn];
                         calls = [FetchTasks, WithProgress progressMessage,
                                  ExecuteTask preDeployTask, OnDidEndTaskProcess]
                     in case promise (waitForPreDeployTask preDeployTask deployFsPath (processEnds host)) of
                          None \<Rightarrow> (context1, calls, None)
                        | Some r \<Rightarrow>
                            (setProperty ''preDeployTaskExitCode''
                               (String_optional_number (exitCode r)) context1,
                             calls, Some r))
                | None \<Rightarrow>
                    (context1, [FetchTasks],
                     Some (preDeployTaskResult\<lparr>failedToFindTask := True\<rparr>))))"

subsection \<open>Handling the outcome\<close>

definition deployAnyway :: MessageItem where
  "deployAnyway = \<lparr>title = localize ''deployAnyway'' ''Deploy Anyway'' []\<rparr>"

definition openSettings :: MessageItem where
  "openSettings = \<lparr>title = localize ''openSettings'' ''Open Settings'' []\<rparr>"

text \<open>\<open>vscode.window.showErrorMessage(message, options, ...items)\<close> resolves to the item
  of the button pressed, or to \<open>undefined\<close>.\<close>

definition showErrorMessage :: "Host \<Rightarrow> MessageItem list \<Rightarrow> MessageItem option" where
  "showErrorMessage host items =
     (case clicked host of
        None \<Rightarrow> None
      | Some i \<Rightarrow> if i < length items then Some (items ! i) else None)"

definition handleFailedPreDeployTask ::
  "Host \<Rightarrow> IActionContext \<Rightarrow> IPreDeployTaskResult \<Rightarrow> IActionContext \<times> Effect list \<times> (Error + unit)" where
  "handleFailedPreDeployTask host context preDeployResult =
     (let message = localize ''taskFailed''
            ''Errors exist after running preDeployTask \"{0}\". See task output for more info.''
            [String_optional_string (taskName preDeployResult)];
          shown = ShowErrorMessage message True [deployAnyway, openSettings];
          result = showErrorMessage host [deployAnyway, openSettings]
      in if result = Some deployAnyway then
           (setProperty ''preDeployTaskResponse'' ''deployAnyway'' context, [shown], Inr ())
         else if result = Some openSettings then
           (setProperty ''preDeployTaskResponse'' ''openSettings'' context,
            [shown, ExecuteCommand ''workbench.action.openSettings''], Inl UserCancelledError)
         else
           (setProperty ''preDeployTaskResponse'' ''cancel'' context, [shown], Inl UserCancelledError))"

text \<open>\<open>runPreDeployTask\<close>: \<open>None\<close> when the wait never ends, \<open>Some (Inl e)\<close> when \<open>e\<close> is
  thrown, \<open>Some (Inr ())\<close> when it returns.\<close>

definition runPreDeployTask ::
  "Host \<Rightarrow> IActionContext \<Rightarrow> string \<Rightarrow> string option \<Rightarrow>
   IActionContext \<times> Effect list \<times> (Error + unit) option" where
  "runPreDeployTask host context deployFsPath scmType =
     (case tryRunPreDeployTask host context deployFsPath scmType of
        (context1, calls, None) \<Rightarrow> (context1, calls, None)
      | (context1, calls, Some preDeployResult) \<Rightarrow>
          if failedToFindTask preDeployResult then
            (context1, calls,
             Some (Inl (Error (''Failed to find pre-deploy task \"''
                 @ String_optional_string (taskName preDeployResult)
                 @ ''\". Modify your tasks or the setting \"'' @ ext_prefix host
                 @ ''.preDeployTask\".''))))
          else if exitCode preDeployResult \<noteq> None \<and> exitCode preDeployResult \<noteq> Some 0 then
            (case handleFailedPreDeployTask host context1 preDeployResult of
               (context2, calls2, outcome) \<Rightarrow> (context2, calls @ calls2, Some outcome))
          else (context1, calls, Some (Inr ())))"

subsection \<open>Notions used to state the properties\<close>

text \<open>An event ends the wait when one of the two conditions of the listener holds; any
  other event is ignored and the wait goes on.\<close>

definition endsWait :: "Task \<Rightarrow> string \<Rightarrow> TaskProcessEndEvent \<Rightarrow> bool" where
  "endsWait preDeployTask deployFsPath e =
     ((isScopeEqual (execution_task e) deployFsPath \<and> process_exitCode e \<noteq> Some 0)
      \<or> ident (execution_task e) = ident preDeployTask)"

text \<open>The result both branches of the listener resolve with.\<close>

definition eventResult :: "TaskProcessEndEvent \<Rightarrow> IPreDeployTaskResult" where
  "eventResult e = \<lparr>taskName = Some (name (execution_task e)),
                     exitCode = process_exitCode e, failedToFindTask = False\<rparr>"

text \<open>How many of the three conditions of the spec's invariant a result satisfies:
  \<open>taskName\<close> undefined, \<open>failedToFindTask\<close> true, \<open>exitCode\<close> set.\<close>

definition classifications :: "IPreDeployTaskResult \<Rightarrow> nat" where
  "classifications r =
     (if taskName r = None then 1 else 0) + (if failedToFindTask r then 1 else 0)
     + (if exitCode r \<noteq> None then 1 else 0)"

definition isShowErrorMessage :: "Effect \<Rightarrow> bool" where
  "isShowErrorMessage c = (case c of ShowErrorMessage _ _ _ \<Rightarrow> True | _ \<Rightarrow> False)"

definition isRegistryCall :: "Effect \<Rightarrow> bool" where
  "isRegistryCall c =
     (case c of FetchTasks \<Rightarrow> True | ExecuteTask _ \<Rightarrow> True | OnDidEndTaskProcess \<Rightarrow> True
      | _ \<Rightarrow> False)"

subsection \<open>Example hosts\<close>

definition settings :: "string option \<Rightarrow> string \<Rightarrow> string \<Rightarrow> string \<Rightarrow> string option" where
  "settings v section path key =
     (if section = ''appService'' \<and> key = ''preDeployTask'' then v else None)"

definition exampleHost ::
  "string option \<Rightarrow> Task list \<Rightarrow> TaskProcessEndEvent list \<Rightarrow> nat option \<Rightarrow> Host" where
  "exampleHost v tasks events click =
     \<lparr>ext_prefix = ''appService'', configuration = settings v, registry = tasks,
      processEnds = events, clicked = click\<rparr>"

definition folderTask :: "nat \<Rightarrow> string \<Rightarrow> string \<Rightarrow> Task" where
  "folderTask i n folder = \<lparr>ident = i, name = n, scope = WorkspaceFolder (Some folder)\<rparr>"

definition buildTask :: Task where
  "buildTask = folderTask 1 ''build'' ''/proj''"

definition lintTask :: Task where
  "lintTask = folderTask 2 ''lint'' ''/proj''"

definition emptyContext :: IActionContext where
  "emptyContext = \<lparr>properties = Map.empty\<rparr>"

section \<open>Lemmas\<close>

subsection \<open>The listener\<close>

lemma errorListener_ignores:
  "\<not> endsWait t p e \<Longrightarrow> errorListener t p e w = w"
  by (auto simp: errorListener_def endsWait_def)

lemma errorListener_ends:
  "endsWait t p e \<Longrightarrow> promise w = None \<Longrightarrow>
   errorListener t p e w = w\<lparr>attached := False, promise := Some (eventResult e)\<rparr>"
  by (auto simp: errorListener_def endsWait_def resolve_def dispose_def eventResult_def Let_def)

lemma fire_detached: "\<not> attached w \<Longrightarrow> fire t p es w = w"
  by (cases es) simp_all

lemma fire_ignored:
  "list_all (\<lambda>e. \<not> endsWait t p e) pre \<Longrightarrow> attached w \<Longrightarrow>
   fire t p (pre @ es) w = fire t p es w"
  by (induction pre) (simp_all add: errorListener_ignores)

lemma fire_first_end:
  assumes "list_all (\<lambda>e. \<not> endsWait t p e) pre" and "endsWait t p e"
    and "attached w" and "promise w = None"
  shows "fire t p (pre @ e # post) w = w\<lparr>attached := False, promise := Some (eventResult e)\<rparr>"
proof -
  have "fire t p (pre @ e # post) w = fire t p (e # post) w"
    using assms(1,3) by (rule fire_ignored)
  also have "\<dots> = fire t p post (w\<lparr>attached := False, promise := Some (eventResult e)\<rparr>)"
    using assms(2,3,4) by (simp add: errorListener_ends)
  also have "\<dots> = w\<lparr>attached := False, promise := Some (eventResult e)\<rparr>"
    by (rule fire_detached) simp
  finally show ?thesis .
qed

lemma fire_cases:
  assumes "attached w" and "promise w = None"
  shows "(list_all (\<lambda>e. \<not> endsWait t p e) es \<and> fire t p es w = w)
       \<or> (\<exists>e \<in> set es. endsWait t p e
             \<and> fire t p es w = w\<lparr>attached := False, promise := Some (eventResult e)\<rparr>)"
  using assms
proof (induction es)
  case Nil
  then show ?case by simp
next
  case (Cons e es)
  show ?case
  proof (cases "endsWait t p e")
    case True
    then have "fire t p (e # es) w = w\<lparr>attached := False, promise := Some (eventResult e)\<rparr>"
      using Cons.prems fire_first_end [of t p "[]" e w es] by simp
    with True show ?thesis by simp
  next
    case False
    then have "fire t p (e # es) w = fire t p es w"
      using Cons.prems(1) by (simp add: errorListener_ignores)
    with Cons.IH [OF Cons.prems] False show ?thesis by auto
  qed
qed

lemma wait_cases:
  "(list_all (\<lambda>e. \<not> endsWait t p e) es
      \<and> waitForPreDeployTask t p es = \<lparr>attached = True, promise = None\<rparr>)
   \<or> (\<exists>e \<in> set es. endsWait t p e
         \<and> waitForPreDeployTask t p es = \<lparr>attached = False, promise = Some (eventResult e)\<rparr>)"
  using fire_cases [of "\<lparr>attached = True, promise = None\<rparr>" t p es]
  by (simp add: waitForPreDeployTask_def)

lemma wait_attached:
  "attached (waitForPreDeployTask t p es) \<Longrightarrow> list_all (\<lambda>e. \<not> endsWait t p e) es"
  using wait_cases [of t p es] by auto

lemma wait_first_end:
  assumes "attached (waitForPreDeployTask t p pre)" and "endsWait t p e"
  shows "waitForPreDeployTask t p (pre @ e # post)
           = \<lparr>attached = False, promise = Some (eventResult e)\<rparr>"
  using fire_first_end [OF wait_attached [OF assms(1)] assms(2), of "\<lparr>attached = True, promise = None\<rparr>" post]
  by (simp add: waitForPreDeployTask_def)

lemma wait_promise:
  "promise (waitForPreDeployTask t p es) = Some r \<Longrightarrow> \<exists>e. r = eventResult e"
  using wait_cases [of t p es] by auto

subsection \<open>The branches of tryRunPreDeployTask\<close>

lemma find_None_list_all: "(find P xs = None) = list_all (\<lambda>x. \<not> P x) xs"
  by (induction xs) simp_all

lemma findPreDeployTask_None:
  "(findPreDeployTask tn p tasks = None) =
   list_all (\<lambda>task. \<not> isTaskEqual tn p task \<and> \<not> isTaskEqual (taskNameWithoutSource tn) p task) tasks"
  by (induction tasks) (auto simp: findPreDeployTask_def split: option.splits)

lemma tryRun_unset:
  "configuration host (ext_prefix host) p preDeployTaskKey = None \<Longrightarrow>
   tryRunPreDeployTask host ctx p scmType =
     (setProperty ''hasPreDeployTask'' ''false'' ctx, [],
      Some \<lparr>taskName = None, exitCode = None, failedToFindTask = False\<rparr>)"
  by (simp add: tryRunPreDeployTask_def String_boolean_def)

lemma tryRun_empty:
  "configuration host (ext_prefix host) p preDeployTaskKey = Some [] \<Longrightarrow>
   tryRunPreDeployTask host ctx p scmType =
     (setProperty ''hasPreDeployTask'' ''false'' ctx, [],
      Some \<lparr>taskName = Some [], exitCode = None, failedToFindTask = False\<rparr>)"
  by (simp add: tryRunPreDeployTask_def String_boolean_def)

lemma tryRun_skipped:
  "configuration host (ext_prefix host) p preDeployTaskKey = Some tn \<Longrightarrow> tn \<noteq> [] \<Longrightarrow>
   scmType = Some ScmType_LocalGit \<or> scmType = Some ScmType_GitHub \<Longrightarrow>
   tryRunPreDeployTask host ctx p scmType =
     (setProperty ''hasPreDeployTask'' ''true'' ctx,
      [AppendLog (localize ''ignoringPreDeployTask''
         ''WARNING: Ignoring preDeployTask \"{0}\" for non-zip deploy.'' [tn])],
      Some \<lparr>taskName = Some tn, exitCode = None, failedToFindTask = False\<rparr>)"
  by (auto simp: tryRunPreDeployTask_def String_boolean_def)

lemma tryRun_not_found:
  "configuration host (ext_prefix host) p preDeployTaskKey = Some tn \<Longrightarrow> tn \<noteq> [] \<Longrightarrow>
   scmType \<noteq> Some ScmType_LocalGit \<Longrightarrow> scmType \<noteq> Some ScmType_GitHub \<Longrightarrow>
   findPreDeployTask tn p (registry host) = None \<Longrightarrow>
   tryRunPreDeployTask host ctx p scmType =
     (setProperty ''hasPreDeployTask'' ''true'' ctx, [FetchTasks],
      Some \<lparr>taskName = Some tn, exitCode = None, failedToFindTask = True\<rparr>)"
  by (simp add: tryRunPreDeployTask_def String_boolean_def)

lemma tryRun_launched:
  "configuration host (ext_prefix host) p preDeployTaskKey = Some tn \<Longrightarrow> tn \<noteq> [] \<Longrightarrow>
   scmType \<noteq> Some ScmType_LocalGit \<Longrightarrow> scmType \<noteq> Some ScmType_GitHub \<Longrightarrow>
   findPreDeployTask tn p (registry host) = Some t \<Longrightarrow>
   tryRunPreDeployTask host ctx p scmType =
     (case promise (waitForPreDeployTask t p (processEnds host)) of
        None \<Rightarrow>
          (setProperty ''hasPreDeployTask'' ''true'' ctx,
           [FetchTasks,
            WithProgress (localize ''runningTask'' ''Running preDeployTask \"{0}\"...'' [tn]),
            ExecuteTask t, OnDidEndTaskProcess], None)
      | Some r \<Rightarrow>
          (setProperty ''preDeployTaskExitCode'' (String_optional_number (exitCode r))
             (setProperty ''hasPreDeployTask'' ''true'' ctx),
           [FetchTasks,
            WithProgress (localize ''runningTask'' ''Running preDeployTask \"{0}\"...'' [tn]),
            ExecuteTask t, OnDidEndTaskProcess], Some r))"
  by (simp add: tryRunPreDeployTask_def String_boolean_def Let_def split: option.splits)

text \<open>What every result of \<open>tryRunPreDeployTask\<close> is, by the branch that produced it.\<close>

lemma tryRun_result:
  assumes "tryRunPreDeployTask host ctx p scmType = (ctx', calls, Some r)"
  shows "(configuration host (ext_prefix host) p preDeployTaskKey = None
            \<and> r = \<lparr>taskName = None, exitCode = None, failedToFindTask = False\<rparr>)
       \<or> (\<exists>tn. configuration host (ext_prefix host) p preDeployTaskKey = Some tn
            \<and> r = \<lparr>taskName = Some tn, exitCode = None, failedToFindTask = False\<rparr>
            \<and> (tn = [] \<or> scmType = Some ScmType_LocalGit \<or> scmType = Some ScmType_GitHub))
       \<or> (\<exists>tn. configuration host (ext_prefix host) p preDeployTaskKey = Some tn \<and> tn \<noteq> []
            \<and> scmType \<noteq> Some ScmType_LocalGit \<and> scmType \<noteq> Some ScmType_GitHub
            \<and> r = \<lparr>taskName = Some tn, exitCode = None, failedToFindTask = True\<rparr>)
       \<or> (\<exists>tn e. configuration host (ext_prefix host) p preDeployTaskKey = Some tn \<and> tn \<noteq> []
            \<and> scmType \<noteq> Some ScmType_LocalGit \<and> scmType \<noteq> Some ScmType_GitHub
            \<and> r = eventResult e)"
proof (cases "configuration host (ext_prefix host) p preDeployTaskKey")
  case None
  from tryRun_unset [OF None, of ctx scmType] assms show ?thesis
    using None by simp
next
  case (Some tn)
  show ?thesis
  proof (cases "tn = []")
    case True
    with Some tryRun_empty [of host p ctx scmType] assms show ?thesis by auto
  next
    case False
    show ?thesis
    proof (cases "scmType = Some ScmType_LocalGit \<or> scmType = Some ScmType_GitHub")
      case True
      from tryRun_skipped [OF Some False True, of ctx] assms Some True show ?thesis
        by auto
    next
      case noskip: False
      show ?thesis
      proof (cases "findPreDeployTask tn p (registry host)")
        case None
        from tryRun_not_found [OF Some False _ _ None, of scmType ctx] noskip assms Some False
        show ?thesis by auto
      next
        case (Some t)
        from tryRun_launched [OF \<open>configuration host (ext_prefix host) p preDeployTaskKey = Some tn\<close> False _ _ Some, of scmType ctx]
          noskip assms
        have "promise (waitForPreDeployTask t p (processEnds host)) = Some r"
          by (auto split: option.splits)
        then obtain e where "r = eventResult e" using wait_promise by blast
        with \<open>configuration host (ext_prefix host) p preDeployTaskKey = Some tn\<close> False noskip
        show ?thesis by blast
      qed
    qed
  qed
qed

lemma tryRun_calls:
  "tryRunPreDeployTask host ctx p scmType = (ctx', calls, res) \<Longrightarrow>
   list_all (\<lambda>c. \<not> isShowErrorMessage c \<and> c \<noteq> ExecuteCommand cmd) calls"
  by (auto simp: tryRunPreDeployTask_def Let_def isShowErrorMessage_def
      split: option.splits if_splits)

section \<open>The claims\<close>

text \<open>
  C5. For every deploy path and scm mode, when the setting is unset,
  \<open>tryRunPreDeployTask\<close> returns \<open>{taskName: undefined, exitCode: undefined,
  failedToFindTask: false}\<close> and makes no call on the host at all, so neither
  \<open>fetchTasks\<close> nor \<open>executeTask\<close>.
\<close>

theorem unset_returns_without_registry:
  assumes "configuration host (ext_prefix host) deployFsPath preDeployTaskKey = None"
  shows "tryRunPreDeployTask host ctx deployFsPath scmType =
           (setProperty ''hasPreDeployTask'' ''false'' ctx, [],
            Some \<lparr>taskName = None, exitCode = None, failedToFindTask = False\<rparr>)"
  using assms by (simp add: tryRunPreDeployTask_def String_boolean_def)

theorem unset_returns_without_registry_witness:
  "configuration (exampleHost None [buildTask] [] None)
     (ext_prefix (exampleHost None [buildTask] [] None)) ''/proj'' preDeployTaskKey = None
   \<and> snd (tryRunPreDeployTask (exampleHost None [buildTask] [] None) emptyContext ''/proj'' None)
       = ([], Some \<lparr>taskName = None, exitCode = None, failedToFindTask = False\<rparr>)"
proof -
  have unset: "configuration (exampleHost None [buildTask] [] None)
     (ext_prefix (exampleHost None [buildTask] [] None)) ''/proj'' preDeployTaskKey = None"
    by (simp add: exampleHost_def settings_def)
  show ?thesis
    using unset unset_returns_without_registry [OF unset, of emptyContext None] by simp
qed

text \<open>
  C9. When the setting holds the empty string, \<open>tryRunPreDeployTask\<close> returns as it does
  for an unset setting: no call on the host, \<open>failedToFindTask\<close> false, \<open>exitCode\<close>
  undefined; but \<open>taskName\<close> is the empty string, not undefined.
\<close>

theorem empty_name_returns_without_registry:
  assumes "configuration host (ext_prefix host) deployFsPath preDeployTaskKey = Some []"
  shows "tryRunPreDeployTask host ctx deployFsPath scmType =
           (setProperty ''hasPreDeployTask'' ''false'' ctx, [],
            Some \<lparr>taskName = Some [], exitCode = None, failedToFindTask = False\<rparr>)"
  using assms by (simp add: tryRunPreDeployTask_def String_boolean_def)

theorem empty_name_returns_without_registry_witness:
  "configuration (exampleHost (Some []) [buildTask] [] None)
     (ext_prefix (exampleHost (Some []) [buildTask] [] None)) ''/proj'' preDeployTaskKey = Some []
   \<and> snd (tryRunPreDeployTask (exampleHost (Some []) [buildTask] [] None) emptyContext ''/proj'' None)
       = ([], Some \<lparr>taskName = Some [], exitCode = None, failedToFindTask = False\<rparr>)"
proof -
  have empty: "configuration (exampleHost (Some []) [buildTask] [] None)
     (ext_prefix (exampleHost (Some []) [buildTask] [] None)) ''/proj'' preDeployTaskKey = Some []"
    by (simp add: exampleHost_def settings_def preDeployTaskKey_def)
  show ?thesis
    using empty empty_name_returns_without_registry [OF empty, of emptyContext None] by simp
qed

text \<open>
  C6, as the claim states it, fails: with the setting unset and the scm mode \<open>LocalGit\<close>
  there is no log line; nothing at all is called on the host.
\<close>

theorem server_side_build_unset_counterexample:
  "snd (tryRunPreDeployTask (exampleHost None [buildTask] [] None) emptyContext ''/proj''
          (Some ScmType_LocalGit))
     = ([], Some \<lparr>taskName = None, exitCode = None, failedToFindTask = False\<rparr>)"
  by code_simp

text \<open>
  C6, amended. For every configuration and for scm mode \<open>LocalGit\<close> or \<open>GitHub\<close>, no task
  is fetched or executed, and \<open>tryRunPreDeployTask\<close> returns with \<open>exitCode\<close> undefined
  and \<open>failedToFindTask\<close> false. The only call on the host is one informational log line
  when a non-empty task name is configured; when the setting is unset or empty there is
  no call.
\<close>

theorem server_side_build_skips:
  assumes "scmType = Some ScmType_LocalGit \<or> scmType = Some ScmType_GitHub"
  shows "\<exists>ctx' calls r.
           tryRunPreDeployTask host ctx deployFsPath scmType = (ctx', calls, Some r)
         \<and> exitCode r = None \<and> \<not> failedToFindTask r
         \<and> list_all (\<lambda>c. \<not> isRegistryCall c) calls
         \<and> calls =
             (case configuration host (ext_prefix host) deployFsPath preDeployTaskKey of
                None \<Rightarrow> []
              | Some tn \<Rightarrow>
                  if tn = [] then []
                  else [AppendLog (localize ''ignoringPreDeployTask''
                          ''WARNING: Ignoring preDeployTask \"{0}\" for non-zip deploy.'' [tn])])"
proof (cases "configuration host (ext_prefix host) deployFsPath preDeployTaskKey")
  case None
  then show ?thesis by (simp add: tryRun_unset)
next
  case (Some tn)
  show ?thesis
  proof (cases "tn = []")
    case True
    with Some show ?thesis by (simp add: tryRun_empty)
  next
    case False
    from tryRun_skipped [OF Some False assms] Some False show ?thesis
      by (simp add: isRegistryCall_def)
  qed
qed

theorem server_side_build_skips_witness:
  "(Some ScmType_GitHub = Some ScmType_LocalGit \<or> Some ScmType_GitHub = Some ScmType_GitHub)
   \<and> (\<exists>ctx' calls r.
         tryRunPreDeployTask
           (exampleHost (Some ''build'') [buildTask] [TaskProcessEndEvent buildTask (Some 0)] None)
           emptyContext ''/proj'' (Some ScmType_GitHub) = (ctx', calls, Some r)
       \<and> exitCode r = None \<and> \<not> failedToFindTask r
       \<and> list_all (\<lambda>c. \<not> isRegistryCall c) calls
       \<and> calls = [AppendLog ''WARNING: Ignoring preDeployTask \"build\" for non-zip deploy.''])"
proof -
  have cfg: "configuration
      (exampleHost (Some ''build'') [buildTask] [TaskProcessEndEvent buildTask (Some 0)] None)
      (ext_prefix
        (exampleHost (Some ''build'') [buildTask] [TaskProcessEndEvent buildTask (Some 0)] None))
      ''/proj'' preDeployTaskKey = Some ''build''"
    by (simp add: exampleHost_def settings_def preDeployTaskKey_def)
  have msg: "localize ''ignoringPreDeployTask''
      ''WARNING: Ignoring preDeployTask \"{0}\" for non-zip deploy.'' [''build'']
      = ''WARNING: Ignoring preDeployTask \"build\" for non-zip deploy.''"
    by code_simp
  have scm: "Some ScmType_GitHub = Some ScmType_LocalGit \<or> Some ScmType_GitHub = Some ScmType_GitHub"
    by simp
  show ?thesis
    using server_side_build_skips [OF scm,
        of "exampleHost (Some ''build'') [buildTask] [TaskProcessEndEvent buildTask (Some 0)] None"
           emptyContext "''/proj''"]
    by (simp add: cfg msg)
qed

text \<open>
  C1, as the claim states it, fails: in the skip case (a task name is configured and the
  scm mode is \<open>LocalGit\<close>) the result has a task name, no exit code and
  \<open>failedToFindTask\<close> false, so none of the three conditions holds.
\<close>

theorem classification_skip_counterexample:
  "snd (snd (tryRunPreDeployTask
       (exampleHost (Some ''build'') [buildTask] [TaskProcessEndEvent buildTask (Some 0)] None)
       emptyContext ''/proj'' (Some ScmType_LocalGit)))
     = Some \<lparr>taskName = Some ''build'', exitCode = None, failedToFindTask = False\<rparr>
   \<and> classifications \<lparr>taskName = Some ''build'', exitCode = None, failedToFindTask = False\<rparr> = 0"
  by code_simp

text \<open>
  C1, amended. For every result returned by \<open>tryRunPreDeployTask\<close> at most one of the
  three conditions (\<open>taskName\<close> undefined, \<open>failedToFindTask\<close> true, \<open>exitCode\<close> set)
  holds. Exactly one holds when, and only when, the setting is unset (then \<open>taskName\<close>
  is undefined), or the search ran and found no task (then \<open>failedToFindTask\<close> is true),
  or a task was found and the wait resolved with an exit code (then \<open>exitCode\<close> is set);
  the search runs for a non-empty name and an scm mode other than \<open>LocalGit\<close> and
  \<open>GitHub\<close>. In the skip case for the server-side-build scm modes none of the three
  holds.
\<close>

theorem classification_at_most_one:
  assumes "tryRunPreDeployTask host ctx deployFsPath scmType = (ctx', calls, Some r)"
  shows "classifications r \<le> 1
       \<and> (classifications r = 1) =
           (configuration host (ext_prefix host) deployFsPath preDeployTaskKey = None
            \<or> (\<exists>tn. configuration host (ext_prefix host) deployFsPath preDeployTaskKey = Some tn
                  \<and> tn \<noteq> []
                  \<and> scmType \<noteq> Some ScmType_LocalGit \<and> scmType \<noteq> Some ScmType_GitHub
                  \<and> (findPreDeployTask tn deployFsPath (registry host) = None
                       \<or> (\<exists>task w code.
                             findPreDeployTask tn deployFsPath (registry host) = Some task
                           \<and> promise (waitForPreDeployTask task deployFsPath (processEnds host))
                               = Some w
                           \<and> exitCode w = Some code))))
       \<and> (configuration host (ext_prefix host) deployFsPath preDeployTaskKey = None
            \<longrightarrow> r = \<lparr>taskName = None, exitCode = None, failedToFindTask = False\<rparr>)
       \<and> (\<forall>tn. configuration host (ext_prefix host) deployFsPath preDeployTaskKey = Some tn
                \<and> tn \<noteq> []
                \<and> scmType \<noteq> Some ScmType_LocalGit \<and> scmType \<noteq> Some ScmType_GitHub
                \<and> findPreDeployTask tn deployFsPath (registry host) = None
              \<longrightarrow> r = \<lparr>taskName = Some tn, exitCode = None, failedToFindTask = True\<rparr>)
       \<and> (\<forall>tn task w.
                configuration host (ext_prefix host) deployFsPath preDeployTaskKey = Some tn
                \<and> tn \<noteq> []
                \<and> scmType \<noteq> Some ScmType_LocalGit \<and> scmType \<noteq> Some ScmType_GitHub
                \<and> findPreDeployTask tn deployFsPath (registry host) = Some task
                \<and> promise (waitForPreDeployTask task deployFsPath (processEnds host)) = Some w
              \<longrightarrow> r = w \<and> taskName r \<noteq> None \<and> \<not> failedToFindTask r)
       \<and> (configuration host (ext_prefix host) deployFsPath preDeployTaskKey \<noteq> None
            \<and> configuration host (ext_prefix host) deployFsPath preDeployTaskKey \<noteq> Some []
            \<and> (scmType = Some ScmType_LocalGit \<or> scmType = Some ScmType_GitHub)
          \<longrightarrow> classifications r = 0)"
proof (cases "configuration host (ext_prefix host) deployFsPath preDeployTaskKey")
  case None
  from tryRun_unset [OF None, of ctx scmType] assms
  have "r = \<lparr>taskName = None, exitCode = None, failedToFindTask = False\<rparr>"
    by simp
  with None show ?thesis
    by (simp add: classifications_def)
next
  case (Some tn)
  note cfg = Some
  show ?thesis
  proof (cases "tn = []")
    case True
    from tryRun_empty [of host deployFsPath ctx scmType] cfg True assms
    have "r = \<lparr>taskName = Some [], exitCode = None, failedToFindTask = False\<rparr>"
      by simp
    with cfg True show ?thesis
      by (simp add: classifications_def)
  next
    case False
    note nonempty = False
    show ?thesis
    proof (cases "scmType = Some ScmType_LocalGit \<or> scmType = Some ScmType_GitHub")
      case True
      from tryRun_skipped [OF cfg nonempty True, of ctx] assms
      have "r = \<lparr>taskName = Some tn, exitCode = None, failedToFindTask = False\<rparr>"
        by simp
      with cfg nonempty True show ?thesis
        by (auto simp: classifications_def)
    next
      case False
      then have noskip: "scmType \<noteq> Some ScmType_LocalGit" "scmType \<noteq> Some ScmType_GitHub"
        by simp_all
      show ?thesis
      proof (cases "findPreDeployTask tn deployFsPath (registry host)")
        case None
        from tryRun_not_found [OF cfg nonempty noskip None, of ctx] assms
        have "r = \<lparr>taskName = Some tn, exitCode = None, failedToFindTask = True\<rparr>"
          by simp
        with cfg nonempty noskip None show ?thesis
          by (simp add: classifications_def)
      next
        case (Some task)
        from tryRun_launched [OF cfg nonempty noskip Some, of ctx] assms
        have waited: "promise (waitForPreDeployTask task deployFsPath (processEnds host)) = Some r"
          by (auto split: option.splits)
        then obtain e where "r = eventResult e"
          using wait_promise by blast
        then have shape: "taskName r \<noteq> None" "\<not> failedToFindTask r"
          by (simp_all add: eventResult_def)
        then have count: "classifications r = (if exitCode r = None then 0 else 1)"
          by (auto simp: classifications_def)
        from cfg nonempty noskip Some waited shape count show ?thesis
          by auto
      qed
    qed
  qed
qed

theorem classification_at_most_one_witness:
  "(\<exists>ctx' calls r.
      tryRunPreDeployTask
        (exampleHost (Some ''build'') [buildTask] [TaskProcessEndEvent buildTask (Some 3)] None)
        emptyContext ''/proj'' None = (ctx', calls, Some r)
    \<and> r = \<lparr>taskName = Some ''build'', exitCode = Some 3, failedToFindTask = False\<rparr>
    \<and> classifications r \<le> 1 \<and> classifications r = 1)
   \<and> (\<exists>ctx' calls r.
      tryRunPreDeployTask
        (exampleHost (Some ''build'') [buildTask] [TaskProcessEndEvent buildTask (Some 3)] None)
        emptyContext ''/proj'' (Some ScmType_GitHub) = (ctx', calls, Some r)
    \<and> r = \<lparr>taskName = Some ''build'', exitCode = None, failedToFindTask = False\<rparr>
    \<and> classifications r \<le> 1 \<and> classifications r = 0)
   \<and> findPreDeployTask ''build'' ''/proj''
        (registry (exampleHost (Some ''build'') [lintTask] [] None)) = None
   \<and> (\<exists>ctx' calls r.
      tryRunPreDeployTask (exampleHost (Some ''build'') [lintTask] [] None)
        emptyContext ''/proj'' None = (ctx', calls, Some r)
    \<and> r = \<lparr>taskName = Some ''build'', exitCode = None, failedToFindTask = True\<rparr>
    \<and> classifications r \<le> 1 \<and> classifications r = 1)
   \<and> (\<exists>ctx' calls r.
      tryRunPreDeployTask (exampleHost None [buildTask] [] None)
        emptyContext ''/proj'' None = (ctx', calls, Some r)
    \<and> r = \<lparr>taskName = None, exitCode = None, failedToFindTask = False\<rparr>
    \<and> classifications r \<le> 1 \<and> classifications r = 1)"
proof -
  let ?h = "exampleHost (Some ''build'') [buildTask] [TaskProcessEndEvent buildTask (Some 3)] None"
  let ?T = "tryRunPreDeployTask ?h emptyContext ''/proj'' None"
  let ?r = "\<lparr>taskName = Some ''build'', exitCode = Some 3, failedToFindTask = False\<rparr>"
  let ?S = "tryRunPreDeployTask ?h emptyContext ''/proj'' (Some ScmType_GitHub)"
  let ?s = "\<lparr>taskName = Some ''build'', exitCode = None, failedToFindTask = False\<rparr>"
  let ?k = "exampleHost (Some ''build'') [lintTask] [] None"
  let ?N = "tryRunPreDeployTask ?k emptyContext ''/proj'' None"
  let ?u = "exampleHost None [buildTask] [] None"
  let ?U = "tryRunPreDeployTask ?u emptyContext ''/proj'' None"
  let ?n = "\<lparr>taskName = Some ''build'', exitCode = None, failedToFindTask = True\<rparr>"
  let ?d = "\<lparr>taskName = None, exitCode = None, failedToFindTask = False\<rparr>"
  have scm: "None \<noteq> Some ScmType_LocalGit" "None \<noteq> Some ScmType_GitHub"
    by simp_all
  have nonempty: "''build'' \<noteq> []"
    by simp

  have cfg: "configuration ?h (ext_prefix ?h) ''/proj'' preDeployTaskKey = Some ''build''"
    by (simp add: exampleHost_def settings_def preDeployTaskKey_def)
  have found: "findPreDeployTask ''build'' ''/proj'' (registry ?h) = Some buildTask"
    by code_simp
  have waited: "promise (waitForPreDeployTask buildTask ''/proj'' (processEnds ?h)) = Some ?r"
    by code_simp
  have code: "exitCode ?r = Some 3"
    by simp
  have "snd (snd ?T) = Some ?r"
    by code_simp
  then have run: "?T = (fst ?T, fst (snd ?T), Some ?r)"
    by (metis prod.collapse)
  note at_run = classification_at_most_one [OF run]
  have branch: "configuration ?h (ext_prefix ?h) ''/proj'' preDeployTaskKey = None
      \<or> (\<exists>tn. configuration ?h (ext_prefix ?h) ''/proj'' preDeployTaskKey = Some tn
            \<and> tn \<noteq> [] \<and> None \<noteq> Some ScmType_LocalGit \<and> None \<noteq> Some ScmType_GitHub
            \<and> (findPreDeployTask tn ''/proj'' (registry ?h) = None
                 \<or> (\<exists>task w code.
                       findPreDeployTask tn ''/proj'' (registry ?h) = Some task
                     \<and> promise (waitForPreDeployTask task ''/proj'' (processEnds ?h)) = Some w
                     \<and> exitCode w = Some code)))"
    using cfg nonempty scm found waited code by blast
  have launched: "classifications ?r \<le> 1 \<and> classifications ?r = 1"
    using at_run [THEN conjunct1] at_run [THEN conjunct2, THEN conjunct1, THEN iffD2, OF branch]
    by (rule conjI)

  have "snd (snd ?S) = Some ?s"
    by code_simp
  then have skip: "?S = (fst ?S, fst (snd ?S), Some ?s)"
    by (metis prod.collapse)
  note at_skip = classification_at_most_one [OF skip]
  have mode: "configuration ?h (ext_prefix ?h) ''/proj'' preDeployTaskKey \<noteq> None
      \<and> configuration ?h (ext_prefix ?h) ''/proj'' preDeployTaskKey \<noteq> Some []
      \<and> (Some ScmType_GitHub = Some ScmType_LocalGit \<or> Some ScmType_GitHub = Some ScmType_GitHub)"
    by (simp add: cfg)
  have skipped: "classifications ?s \<le> 1 \<and> classifications ?s = 0"
    using at_skip [THEN conjunct1]
      at_skip [THEN conjunct2, THEN conjunct2, THEN conjunct2, THEN conjunct2, THEN conjunct2,
        THEN mp, OF mode]
    by (rule conjI)

  have cfg_k: "configuration ?k (ext_prefix ?k) ''/proj'' preDeployTaskKey = Some ''build''"
    by (simp add: exampleHost_def settings_def preDeployTaskKey_def)
  have none: "findPreDeployTask ''build'' ''/proj'' (registry ?k) = None"
    by code_simp
  have "snd (snd ?N) = Some ?n"
    by code_simp
  then have missing: "?N = (fst ?N, fst (snd ?N), Some ?n)"
    by (metis prod.collapse)
  note at_missing = classification_at_most_one [OF missing]
  have branch_k: "configuration ?k (ext_prefix ?k) ''/proj'' preDeployTaskKey = None
      \<or> (\<exists>tn. configuration ?k (ext_prefix ?k) ''/proj'' preDeployTaskKey = Some tn
            \<and> tn \<noteq> [] \<and> None \<noteq> Some ScmType_LocalGit \<and> None \<noteq> Some ScmType_GitHub
            \<and> (findPreDeployTask tn ''/proj'' (registry ?k) = None
                 \<or> (\<exists>task w code.
                       findPreDeployTask tn ''/proj'' (registry ?k) = Some task
                     \<and> promise (waitForPreDeployTask task ''/proj'' (processEnds ?k)) = Some w
                     \<and> exitCode w = Some code)))"
    using cfg_k nonempty scm none by blast
  have not_found: "classifications ?n \<le> 1 \<and> classifications ?n = 1"
    using at_missing [THEN conjunct1]
      at_missing [THEN conjunct2, THEN conjunct1, THEN iffD2, OF branch_k]
    by (rule conjI)

  have cfg_u: "configuration ?u (ext_prefix ?u) ''/proj'' preDeployTaskKey = None"
    by (simp add: exampleHost_def settings_def)
  have "snd (snd ?U) = Some ?d"
    by code_simp
  then have absent: "?U = (fst ?U, fst (snd ?U), Some ?d)"
    by (metis prod.collapse)
  note at_absent = classification_at_most_one [OF absent]
  have unset: "classifications ?d \<le> 1 \<and> classifications ?d = 1"
    using at_absent [THEN conjunct1]
      at_absent [THEN conjunct2, THEN conjunct1, THEN iffD2, OF disjI1, OF cfg_u]
    by (rule conjI)

  have first: "\<exists>ctx' calls r. ?T = (ctx', calls, Some r) \<and> r = ?r
      \<and> classifications r \<le> 1 \<and> classifications r = 1"
    using run launched by blast
  have second: "\<exists>ctx' calls r. ?S = (ctx', calls, Some r) \<and> r = ?s
      \<and> classifications r \<le> 1 \<and> classifications r = 0"
    using skip skipped by blast
  have third: "\<exists>ctx' calls r. ?N = (ctx', calls, Some r) \<and> r = ?n
      \<and> classifications r \<le> 1 \<and> classifications r = 1"
    using missing not_found by blast
  have fourth: "\<exists>ctx' calls r. ?U = (ctx', calls, Some r) \<and> r = ?d
      \<and> classifications r \<le> 1 \<and> classifications r = 1"
    using absent unset by blast
  from first second none third fourth show ?thesis
    by (intro conjI)
qed

text \<open>
  C3, as the claim states it, fails: the task name \<open>build\<close> is configured and no task
  is registered, so neither match finds a task, but for the scm mode \<open>LocalGit\<close> the
  result has \<open>failedToFindTask\<close> false and \<open>runPreDeployTask\<close> returns without an error.
\<close>

theorem not_found_in_skip_mode_counterexample:
  "snd (snd (tryRunPreDeployTask (exampleHost (Some ''build'') [] [] None)
       emptyContext ''/proj'' (Some ScmType_LocalGit)))
     = Some \<lparr>taskName = Some ''build'', exitCode = None, failedToFindTask = False\<rparr>
   \<and> findPreDeployTask ''build'' ''/proj'' (registry (exampleHost (Some ''build'') [] [] None)) = None
   \<and> snd (snd (runPreDeployTask (exampleHost (Some ''build'') [] [] None)
       emptyContext ''/proj'' (Some ScmType_LocalGit))) = Some (Inr ())"
  by code_simp

text \<open>
  C3, amended. For every deploy path, every non-empty configured task name and every
  scm mode other than \<open>LocalGit\<close> and \<open>GitHub\<close>: when neither the exact case-insensitive
  match nor the prefix-stripped match finds a task with matching scope,
  \<open>tryRunPreDeployTask\<close> returns a result with \<open>failedToFindTask = true\<close>, and
  \<open>runPreDeployTask\<close> raises an error whose message names the missing task and the
  setting \<open><prefix>.preDeployTask\<close>.
\<close>

theorem failedToFindTask_raises:
  assumes "configuration host (ext_prefix host) deployFsPath preDeployTaskKey = Some tn"
    and "tn \<noteq> []"
    and "scmType \<noteq> Some ScmType_LocalGit" and "scmType \<noteq> Some ScmType_GitHub"
    and "list_all (\<lambda>task. \<not> isTaskEqual tn deployFsPath task
                        \<and> \<not> isTaskEqual (taskNameWithoutSource tn) deployFsPath task)
           (registry host)"
  shows "tryRunPreDeployTask host ctx deployFsPath scmType =
           (setProperty ''hasPreDeployTask'' ''true'' ctx, [FetchTasks],
            Some \<lparr>taskName = Some tn, exitCode = None, failedToFindTask = True\<rparr>)
       \<and> runPreDeployTask host ctx deployFsPath scmType =
           (setProperty ''hasPreDeployTask'' ''true'' ctx, [FetchTasks],
            Some (Inl (Error (''Failed to find pre-deploy task \"'' @ tn
               @ ''\". Modify your tasks or the setting \"'' @ ext_prefix host
               @ ''.preDeployTask\".''))))"
proof -
  have "findPreDeployTask tn deployFsPath (registry host) = None"
    using assms(5) by (simp add: findPreDeployTask_None)
  from tryRun_not_found [OF assms(1-4) this, of ctx]
  show ?thesis by (simp add: runPreDeployTask_def String_optional_string_def)
qed

theorem failedToFindTask_raises_witness:
  "list_all (\<lambda>task. \<not> isTaskEqual ''build'' ''/proj'' task
                   \<and> \<not> isTaskEqual (taskNameWithoutSource ''build'') ''/proj'' task)
     (registry (exampleHost (Some ''build'') [lintTask] [] None))
   \<and> snd (tryRunPreDeployTask (exampleHost (Some ''build'') [lintTask] [] None)
            emptyContext ''/proj'' None)
       = ([FetchTasks], Some \<lparr>taskName = Some ''build'', exitCode = None, failedToFindTask = True\<rparr>)
   \<and> snd (runPreDeployTask (exampleHost (Some ''build'') [lintTask] [] None)
            emptyContext ''/proj'' None)
       = ([FetchTasks],
          Some (Inl (Error ''Failed to find pre-deploy task \"build\". Modify your tasks or the setting \"appService.preDeployTask\".'')))"
proof -
  let ?h = "exampleHost (Some ''build'') [lintTask] [] None"
  have cfg: "configuration ?h (ext_prefix ?h) ''/proj'' preDeployTaskKey = Some ''build''"
    by (simp add: exampleHost_def settings_def preDeployTaskKey_def)
  have nonempty: "''build'' \<noteq> []"
    by simp
  have scm: "None \<noteq> Some ScmType_LocalGit" "None \<noteq> Some ScmType_GitHub"
    by simp_all
  have unmatched: "list_all (\<lambda>task. \<not> isTaskEqual ''build'' ''/proj'' task
       \<and> \<not> isTaskEqual (taskNameWithoutSource ''build'') ''/proj'' task) (registry ?h)"
    by code_simp
  have pre: "ext_prefix ?h = ''appService''"
    by (simp add: exampleHost_def)
  show ?thesis
    using unmatched failedToFindTask_raises [OF cfg nonempty scm unmatched, of emptyContext]
    by (simp add: pre)
qed

text \<open>
  C2, as the claim states it, fails: with the task \<open>func: extensions install\<close> registered
  at \<open>/proj\<close> and the setting \<open>extensions install\<close>, the deploy path \<open>/proj/sub\<close> finds
  no task, and none is run. The prefix is stripped from the configured name, never from
  the name of a registered task, and the configured name has no prefix to strip.
\<close>

theorem prefix_on_registered_task_counterexample:
  "taskNameWithoutSource ''extensions install'' = ''extensions install''
   \<and> snd (tryRunPreDeployTask
       (exampleHost (Some ''extensions install'')
          [folderTask 1 ''func: extensions install'' ''/proj'']
          [TaskProcessEndEvent (folderTask 1 ''func: extensions install'' ''/proj'') (Some 0)] None)
       emptyContext ''/proj/sub'' None)
     = ([FetchTasks],
        Some \<lparr>taskName = Some ''extensions install'', exitCode = None, failedToFindTask = True\<rparr>)"
  by code_simp

text \<open>
  C2, amended. If a task named \<open>extensions install\<close> is registered with scope \<open>/proj\<close>,
  and the configured pre-deploy task name is \<open>func: extensions install\<close> with deploy
  path \<open>/proj/sub\<close> (and the scm mode is not a server-side-build one), then resolution
  succeeds: a task is found and run. When that task is the only one registered it is
  found by the prefix-stripped match, not by the exact one, under the ancestor-path rule.
\<close>

theorem prefix_stripped_match_resolves:
  assumes "configuration host (ext_prefix host) ''/proj/sub'' preDeployTaskKey
             = Some ''func: extensions install''"
    and "scmType \<noteq> Some ScmType_LocalGit" and "scmType \<noteq> Some ScmType_GitHub"
    and "t \<in> set (registry host)"
    and "name t = ''extensions install''"
    and "scope t = WorkspaceFolder (Some ''/proj'')"
  shows "(\<exists>found.
            findPreDeployTask ''func: extensions install'' ''/proj/sub'' (registry host) = Some found
          \<and> fst (snd (tryRunPreDeployTask host ctx ''/proj/sub'' scmType)) =
              [FetchTasks,
               WithProgress (localize ''runningTask'' ''Running preDeployTask \"{0}\"...''
                 [''func: extensions install'']),
               ExecuteTask found, OnDidEndTaskProcess]
          \<and> snd (snd (tryRunPreDeployTask host ctx ''/proj/sub'' scmType))
              = promise (waitForPreDeployTask found ''/proj/sub'' (processEnds host)))
       \<and> (registry host = [t] \<longrightarrow>
            find (isTaskEqual ''func: extensions install'' ''/proj/sub'') (registry host) = None
          \<and> find (isTaskEqual (taskNameWithoutSource ''func: extensions install'') ''/proj/sub'')
               (registry host) = Some t)"
proof -
  have stripped: "taskNameWithoutSource ''func: extensions install'' = ''extensions install''"
    by code_simp
  have ancestor: "isSubpath ''/proj'' ''/proj/sub''"
    by code_simp
  have differ: "toLowerCase ''func: extensions install'' \<noteq> toLowerCase ''extensions install''"
    by code_simp
  have by_stripped: "isTaskEqual (taskNameWithoutSource ''func: extensions install'') ''/proj/sub'' t"
    using assms(5,6) ancestor by (simp add: stripped isTaskEqual_def)
  have not_exact: "\<not> isTaskEqual ''func: extensions install'' ''/proj/sub'' t"
    using assms(5) differ by (simp add: isTaskEqual_def)
  have "\<not> list_all (\<lambda>task. \<not> isTaskEqual ''func: extensions install'' ''/proj/sub'' task
          \<and> \<not> isTaskEqual (taskNameWithoutSource ''func: extensions install'') ''/proj/sub'' task)
        (registry host)"
    using assms(4) by_stripped by (auto simp: list_all_iff)
  then obtain found where
    found: "findPreDeployTask ''func: extensions install'' ''/proj/sub'' (registry host) = Some found"
    using findPreDeployTask_None [of "''func: extensions install''" "''/proj/sub''" "registry host"]
    by auto
  have nonempty: "''func: extensions install'' \<noteq> []"
    by simp
  have run: "fst (snd (tryRunPreDeployTask host ctx ''/proj/sub'' scmType)) =
      [FetchTasks,
       WithProgress (localize ''runningTask'' ''Running preDeployTask \"{0}\"...''
         [''func: extensions install'']),
       ExecuteTask found, OnDidEndTaskProcess]
    \<and> snd (snd (tryRunPreDeployTask host ctx ''/proj/sub'' scmType))
        = promise (waitForPreDeployTask found ''/proj/sub'' (processEnds host))"
    by (simp add: tryRun_launched [OF assms(1) nonempty assms(2,3) found] split: option.splits)
  have only: "registry host = [t] \<longrightarrow>
      find (isTaskEqual ''func: extensions install'' ''/proj/sub'') (registry host) = None
    \<and> find (isTaskEqual (taskNameWithoutSource ''func: extensions install'') ''/proj/sub'')
         (registry host) = Some t"
    using by_stripped not_exact by simp
  from found run only show ?thesis by blast
qed

theorem prefix_stripped_match_resolves_witness:
  "folderTask 3 ''extensions install'' ''/proj''
     \<in> set (registry (exampleHost (Some ''func: extensions install'')
                [folderTask 3 ''extensions install'' ''/proj'']
                [TaskProcessEndEvent (folderTask 3 ''extensions install'' ''/proj'') (Some 0)] None))
   \<and> fst (snd (tryRunPreDeployTask
       (exampleHost (Some ''func: extensions install'')
          [folderTask 3 ''extensions install'' ''/proj'']
          [TaskProcessEndEvent (folderTask 3 ''extensions install'' ''/proj'') (Some 0)] None)
       emptyContext ''/proj/sub'' None))
     = [FetchTasks, WithProgress ''Running preDeployTask \"func: extensions install\"...'',
        ExecuteTask (folderTask 3 ''extensions install'' ''/proj''), OnDidEndTaskProcess]
   \<and> snd (snd (tryRunPreDeployTask
       (exampleHost (Some ''func: extensions install'')
          [folderTask 3 ''extensions install'' ''/proj'']
          [TaskProcessEndEvent (folderTask 3 ''extensions install'' ''/proj'') (Some 0)] None)
       emptyContext ''/proj/sub'' None))
     = Some \<lparr>taskName = Some ''extensions install'', exitCode = Some 0, failedToFindTask = False\<rparr>
   \<and> find (isTaskEqual ''func: extensions install'' ''/proj/sub'')
       (registry (exampleHost (Some ''func: extensions install'')
                [folderTask 3 ''extensions install'' ''/proj'']
                [TaskProcessEndEvent (folderTask 3 ''extensions install'' ''/proj'') (Some 0)] None))
     = None
   \<and> find (isTaskEqual (taskNameWithoutSource ''func: extensions install'') ''/proj/sub'')
       (registry (exampleHost (Some ''func: extensions install'')
                [folderTask 3 ''extensions install'' ''/proj'']
                [TaskProcessEndEvent (folderTask 3 ''extensions install'' ''/proj'') (Some 0)] None))
     = Some (folderTask 3 ''extensions install'' ''/proj'')"
proof -
  let ?t = "folderTask 3 ''extensions install'' ''/proj''"
  let ?h = "exampleHost (Some ''func: extensions install'') [?t]
              [TaskProcessEndEvent ?t (Some 0)] None"
  have cfg: "configuration ?h (ext_prefix ?h) ''/proj/sub'' preDeployTaskKey
               = Some ''func: extensions install''"
    by (simp add: exampleHost_def settings_def preDeployTaskKey_def)
  have scm: "None \<noteq> Some ScmType_LocalGit" "None \<noteq> Some ScmType_GitHub"
    by simp_all
  have registered: "?t \<in> set (registry ?h)"
    by (simp add: exampleHost_def)
  have named: "name ?t = ''extensions install''"
    by (simp add: folderTask_def)
  have scoped: "scope ?t = WorkspaceFolder (Some ''/proj'')"
    by (simp add: folderTask_def)
  have found: "findPreDeployTask ''func: extensions install'' ''/proj/sub'' (registry ?h) = Some ?t"
    by code_simp
  have msg: "localize ''runningTask'' ''Running preDeployTask \"{0}\"...''
      [''func: extensions install''] = ''Running preDeployTask \"func: extensions install\"...''"
    by code_simp
  have waited: "promise (waitForPreDeployTask ?t ''/proj/sub'' (processEnds ?h))
      = Some \<lparr>taskName = Some ''extensions install'', exitCode = Some 0, failedToFindTask = False\<rparr>"
    by code_simp
  have only: "registry ?h = [?t]"
    by (simp add: exampleHost_def)
  note resolved = prefix_stripped_match_resolves [OF cfg scm registered named scoped, of emptyContext]
  from resolved only
  have finds: "find (isTaskEqual ''func: extensions install'' ''/proj/sub'') (registry ?h) = None
      \<and> find (isTaskEqual (taskNameWithoutSource ''func: extensions install'') ''/proj/sub'')
          (registry ?h) = Some ?t"
    by blast
  from resolved
  obtain task where
    task: "findPreDeployTask ''func: extensions install'' ''/proj/sub'' (registry ?h) = Some task"
    and calls: "fst (snd (tryRunPreDeployTask ?h emptyContext ''/proj/sub'' None)) =
      [FetchTasks,
       WithProgress (localize ''runningTask'' ''Running preDeployTask \"{0}\"...''
         [''func: extensions install'']),
       ExecuteTask task, OnDidEndTaskProcess]"
    and result: "snd (snd (tryRunPreDeployTask ?h emptyContext ''/proj/sub'' None))
        = promise (waitForPreDeployTask task ''/proj/sub'' (processEnds ?h))"
    by blast
  from task found have "task = ?t"
    by simp
  with calls result show ?thesis
    using registered finds by (simp only: msg waited simp_thms)
qed

text \<open>
  C4. While the wait is on (the listener is still attached after the events \<open>pre\<close>, none
  of which is an event of the launched task), an event arrives for a task of another
  identity, whose scope equals or is an ancestor of the deploy path, with a non-zero
  exit code. Then the wait resolves with the name and the exit code of that task, and
  the listener is detached.
\<close>

theorem wait_resolves_with_failed_dependency:
  assumes "attached (waitForPreDeployTask preDeployTask deployFsPath pre)"
    and "list_all (\<lambda>e'. ident (execution_task e') \<noteq> ident preDeployTask) pre"
    and "ident (execution_task e) \<noteq> ident preDeployTask"
    and "scope (execution_task e) = WorkspaceFolder (Some folder)"
    and "isPathEqual folder deployFsPath \<or> isSubpath folder deployFsPath"
    and "process_exitCode e = Some code" and "code \<noteq> 0"
  shows "waitForPreDeployTask preDeployTask deployFsPath (pre @ e # post) =
           \<lparr>attached = False,
            promise = Some \<lparr>taskName = Some (name (execution_task e)), exitCode = Some code,
                             failedToFindTask = False\<rparr>\<rparr>"
proof -
  have "isScopeEqual (execution_task e) deployFsPath"
    using assms(4,5) by (simp add: isScopeEqual_def)
  then have "endsWait preDeployTask deployFsPath e"
    using assms(6,7) by (simp add: endsWait_def)
  from wait_first_end [OF assms(1) this, of post] assms(6)
  show ?thesis by (simp add: eventResult_def)
qed

theorem wait_resolves_with_failed_dependency_witness:
  "attached (waitForPreDeployTask buildTask ''/proj/sub''
      [TaskProcessEndEvent (folderTask 5 ''other'' ''/elsewhere'') (Some 1),
       TaskProcessEndEvent lintTask (Some 0)])
   \<and> waitForPreDeployTask buildTask ''/proj/sub''
       ([TaskProcessEndEvent (folderTask 5 ''other'' ''/elsewhere'') (Some 1),
         TaskProcessEndEvent lintTask (Some 0)]
        @ TaskProcessEndEvent lintTask (Some 2) # [TaskProcessEndEvent buildTask (Some 0)])
     = \<lparr>attached = False,
        promise = Some \<lparr>taskName = Some ''lint'', exitCode = Some 2, failedToFindTask = False\<rparr>\<rparr>"
proof -
  let ?pre = "[TaskProcessEndEvent (folderTask 5 ''other'' ''/elsewhere'') (Some 1),
               TaskProcessEndEvent lintTask (Some 0)]"
  let ?e = "TaskProcessEndEvent lintTask (Some 2)"
  have waiting: "attached (waitForPreDeployTask buildTask ''/proj/sub'' ?pre)"
    by code_simp
  have others: "list_all (\<lambda>e'. ident (execution_task e') \<noteq> ident buildTask) ?pre"
    by code_simp
  have other: "ident (execution_task ?e) \<noteq> ident buildTask"
    by code_simp
  have scoped: "scope (execution_task ?e) = WorkspaceFolder (Some ''/proj'')"
    by (simp add: lintTask_def folderTask_def)
  have ancestor: "isPathEqual ''/proj'' ''/proj/sub'' \<or> isSubpath ''/proj'' ''/proj/sub''"
    by code_simp
  have code: "process_exitCode ?e = Some 2" "(2::int) \<noteq> 0"
    by simp_all
  have named: "name (execution_task ?e) = ''lint''"
    by (simp add: lintTask_def folderTask_def)
  show ?thesis
    using waiting
      wait_resolves_with_failed_dependency [OF waiting others other scoped ancestor code,
        of "[TaskProcessEndEvent buildTask (Some 0)]"]
    by (simp only: named simp_thms)
qed

text \<open>
  C10. While the wait is on, an event arrives for a task whose scope equals or is an
  ancestor of the deploy path and that carries no exit code. The first condition of the
  listener holds (\<open>undefined !== 0\<close>), so the wait resolves with \<open>exitCode\<close> undefined,
  whether or not the task is the launched one; \<open>runPreDeployTask\<close> then returns
  without showing the failure prompt.
\<close>

theorem undefined_exit_code_is_silent:
  assumes "configuration host (ext_prefix host) deployFsPath preDeployTaskKey = Some tn"
    and "tn \<noteq> []"
    and "scmType \<noteq> Some ScmType_LocalGit" and "scmType \<noteq> Some ScmType_GitHub"
    and "findPreDeployTask tn deployFsPath (registry host) = Some preDeployTask"
    and "processEnds host = pre @ e # post"
    and "attached (waitForPreDeployTask preDeployTask deployFsPath pre)"
    and "isScopeEqual (execution_task e) deployFsPath"
    and "process_exitCode e = None"
  shows "waitForPreDeployTask preDeployTask deployFsPath (processEnds host) =
           \<lparr>attached = False,
            promise = Some \<lparr>taskName = Some (name (execution_task e)), exitCode = None,
                             failedToFindTask = False\<rparr>\<rparr>
       \<and> runPreDeployTask host ctx deployFsPath scmType =
           (setProperty ''preDeployTaskExitCode'' ''undefined''
              (setProperty ''hasPreDeployTask'' ''true'' ctx),
            [FetchTasks,
             WithProgress (localize ''runningTask'' ''Running preDeployTask \"{0}\"...'' [tn]),
             ExecuteTask preDeployTask, OnDidEndTaskProcess],
            Some (Inr ()))"
proof -
  have "endsWait preDeployTask deployFsPath e"
    using assms(8,9) by (simp add: endsWait_def)
  from wait_first_end [OF assms(7) this, of post] assms(6,9)
  have waited: "waitForPreDeployTask preDeployTask deployFsPath (processEnds host) =
      \<lparr>attached = False,
       promise = Some \<lparr>taskName = Some (name (execution_task e)), exitCode = None,
                        failedToFindTask = False\<rparr>\<rparr>"
    by (simp add: eventResult_def)
  have "runPreDeployTask host ctx deployFsPath scmType =
      (setProperty ''preDeployTaskExitCode'' ''undefined''
         (setProperty ''hasPreDeployTask'' ''true'' ctx),
       [FetchTasks,
        WithProgress (localize ''runningTask'' ''Running preDeployTask \"{0}\"...'' [tn]),
        ExecuteTask preDeployTask, OnDidEndTaskProcess],
       Some (Inr ()))"
    by (simp add: runPreDeployTask_def tryRun_launched [OF assms(1-5)] waited
        String_optional_number_def)
  with waited show ?thesis by simp
qed

theorem undefined_exit_code_is_silent_witness:
  "attached (waitForPreDeployTask buildTask ''/proj'' [TaskProcessEndEvent lintTask (Some 0)])
   \<and> isScopeEqual (execution_task (TaskProcessEndEvent lintTask None)) ''/proj''
   \<and> promise (waitForPreDeployTask buildTask ''/proj''
        (processEnds (exampleHost (Some ''build'') [lintTask, buildTask]
           ([TaskProcessEndEvent lintTask (Some 0)] @ TaskProcessEndEvent lintTask None
              # [TaskProcessEndEvent buildTask (Some 1)]) None)))
       = Some \<lparr>taskName = Some ''lint'', exitCode = None, failedToFindTask = False\<rparr>
   \<and> snd (runPreDeployTask
        (exampleHost (Some ''build'') [lintTask, buildTask]
           ([TaskProcessEndEvent lintTask (Some 0)] @ TaskProcessEndEvent lintTask None
              # [TaskProcessEndEvent buildTask (Some 1)]) None)
        emptyContext ''/proj'' None)
       = ([FetchTasks, WithProgress ''Running preDeployTask \"build\"...'',
           ExecuteTask buildTask, OnDidEndTaskProcess], Some (Inr ()))"
proof -
  let ?pre = "[TaskProcessEndEvent lintTask (Some 0)]"
  let ?e = "TaskProcessEndEvent lintTask None"
  let ?post = "[TaskProcessEndEvent buildTask (Some 1)]"
  let ?h = "exampleHost (Some ''build'') [lintTask, buildTask] (?pre @ ?e # ?post) None"
  have cfg: "configuration ?h (ext_prefix ?h) ''/proj'' preDeployTaskKey = Some ''build''"
    by (simp add: exampleHost_def settings_def preDeployTaskKey_def)
  have nonempty: "''build'' \<noteq> []"
    by simp
  have scm: "None \<noteq> Some ScmType_LocalGit" "None \<noteq> Some ScmType_GitHub"
    by simp_all
  have found: "findPreDeployTask ''build'' ''/proj'' (registry ?h) = Some buildTask"
    by code_simp
  have events: "processEnds ?h = ?pre @ ?e # ?post"
    by (simp add: exampleHost_def)
  have waiting: "attached (waitForPreDeployTask buildTask ''/proj'' ?pre)"
    by code_simp
  have scoped: "isScopeEqual (execution_task ?e) ''/proj''"
    by code_simp
  have code: "process_exitCode ?e = None"
    by simp
  have named: "name (execution_task ?e) = ''lint''"
    by (simp add: lintTask_def folderTask_def)
  have msg: "localize ''runningTask'' ''Running preDeployTask \"{0}\"...'' [''build'']
      = ''Running preDeployTask \"build\"...''"
    by code_simp
  from undefined_exit_code_is_silent
    [OF cfg nonempty scm found events waiting scoped code, of emptyContext]
  show ?thesis
    using waiting scoped by (simp only: named msg snd_conv Wait.simps simp_thms)
qed

lemma message_items:
  "deployAnyway = \<lparr>title = ''Deploy Anyway''\<rparr>" "openSettings = \<lparr>title = ''Open Settings''\<rparr>"
  by (simp_all add: deployAnyway_def openSettings_def localize_def)

lemma handleFailedPreDeployTask_clicked:
  "handleFailedPreDeployTask host ctx r =
     (let shown = ShowErrorMessage
            (localize ''taskFailed''
               ''Errors exist after running preDeployTask \"{0}\". See task output for more info.''
               [String_optional_string (taskName r)])
            True [\<lparr>title = ''Deploy Anyway''\<rparr>, \<lparr>title = ''Open Settings''\<rparr>]
      in if clicked host = Some 0 then
           (setProperty ''preDeployTaskResponse'' ''deployAnyway'' ctx, [shown], Inr ())
         else if clicked host = Some 1 then
           (setProperty ''preDeployTaskResponse'' ''openSettings'' ctx,
            [shown, ExecuteCommand ''workbench.action.openSettings''], Inl UserCancelledError)
         else
           (setProperty ''preDeployTaskResponse'' ''cancel'' ctx, [shown], Inl UserCancelledError))"
proof (cases "clicked host")
  case None
  then show ?thesis
    by (simp add: handleFailedPreDeployTask_def showErrorMessage_def message_items)
next
  case (Some i)
  consider "i = 0" | "i = 1" | "2 \<le> i" by linarith
  then show ?thesis
    by cases (simp_all add: Some handleFailedPreDeployTask_def showErrorMessage_def message_items)
qed

lemma runPreDeployTask_failed:
  assumes "tryRunPreDeployTask host ctx p scmType = (ctx', calls, Some r)"
    and "exitCode r = Some code" and "code \<noteq> 0"
  shows "runPreDeployTask host ctx p scmType =
     (case handleFailedPreDeployTask host ctx' r of
        (ctx'', calls', outcome) \<Rightarrow> (ctx'', calls @ calls', Some outcome))"
proof -
  have "\<not> failedToFindTask r"
    using tryRun_result [OF assms(1)] assms(2)
    by (elim disjE exE conjE) (simp_all add: eventResult_def)
  with assms show ?thesis by (simp add: runPreDeployTask_def)
qed

text \<open>
  C7. When the result of the pre-deploy task has a defined non-zero exit code, the modal
  failure prompt offers exactly the two choices \<open>Deploy Anyway\<close> and \<open>Open Settings\<close>.
  Choosing \<open>Deploy Anyway\<close> (the first button) records the choice \<open>deployAnyway\<close> and
  \<open>runPreDeployTask\<close> returns. Choosing \<open>Open Settings\<close> (the second button) records
  \<open>openSettings\<close>, opens the settings exactly once and raises a user-cancellation error.
  Dismissing the dialog records \<open>cancel\<close> and raises a user-cancellation error.
\<close>

theorem failure_prompt_choices:
  assumes "tryRunPreDeployTask host ctx deployFsPath scmType = (ctx', calls, Some r)"
    and "exitCode r = Some code" and "code \<noteq> 0"
  shows "let prompt = ShowErrorMessage
                 (localize ''taskFailed''
                    ''Errors exist after running preDeployTask \"{0}\". See task output for more info.''
                    [String_optional_string (taskName r)])
                 True [\<lparr>title = ''Deploy Anyway''\<rparr>, \<lparr>title = ''Open Settings''\<rparr>]
         in (clicked host = Some 0 \<longrightarrow>
               runPreDeployTask host ctx deployFsPath scmType =
                 (setProperty ''preDeployTaskResponse'' ''deployAnyway'' ctx',
                  calls @ [prompt], Some (Inr ())))
          \<and> (clicked host = Some 1 \<longrightarrow>
               runPreDeployTask host ctx deployFsPath scmType =
                 (setProperty ''preDeployTaskResponse'' ''openSettings'' ctx',
                  calls @ [prompt, ExecuteCommand ''workbench.action.openSettings''],
                  Some (Inl UserCancelledError))
             \<and> count_list (fst (snd (runPreDeployTask host ctx deployFsPath scmType)))
                  (ExecuteCommand ''workbench.action.openSettings'') = 1)
          \<and> (clicked host = None \<longrightarrow>
               runPreDeployTask host ctx deployFsPath scmType =
                 (setProperty ''preDeployTaskResponse'' ''cancel'' ctx',
                  calls @ [prompt], Some (Inl UserCancelledError)))"
proof -
  have none: "count_list calls (ExecuteCommand ''workbench.action.openSettings'') = 0"
    using tryRun_calls [OF assms(1), of "''workbench.action.openSettings''"]
    by (auto simp: list_all_iff count_list_0_iff)
  show ?thesis
    using none
    by (simp add: runPreDeployTask_failed [OF assms] handleFailedPreDeployTask_clicked Let_def)
qed

theorem failure_prompt_choices_witness:
  "snd (runPreDeployTask
      (exampleHost (Some ''build'') [buildTask] [TaskProcessEndEvent buildTask (Some 1)] (Some 0))
      emptyContext ''/proj'' None)
     = ([FetchTasks, WithProgress ''Running preDeployTask \"build\"...'', ExecuteTask buildTask,
         OnDidEndTaskProcess,
         ShowErrorMessage
           ''Errors exist after running preDeployTask \"build\". See task output for more info.''
           True [\<lparr>title = ''Deploy Anyway''\<rparr>, \<lparr>title = ''Open Settings''\<rparr>]],
        Some (Inr ()))
   \<and> properties (fst (runPreDeployTask
      (exampleHost (Some ''build'') [buildTask] [TaskProcessEndEvent buildTask (Some 1)] (Some 0))
      emptyContext ''/proj'' None)) ''preDeployTaskResponse'' = Some ''deployAnyway''
   \<and> snd (runPreDeployTask
      (exampleHost (Some ''build'') [buildTask] [TaskProcessEndEvent buildTask (Some 1)] (Some 1))
      emptyContext ''/proj'' None)
     = ([FetchTasks, WithProgress ''Running preDeployTask \"build\"...'', ExecuteTask buildTask,
         OnDidEndTaskProcess,
         ShowErrorMessage
           ''Errors exist after running preDeployTask \"build\". See task output for more info.''
           True [\<lparr>title = ''Deploy Anyway''\<rparr>, \<lparr>title = ''Open Settings''\<rparr>],
         ExecuteCommand ''workbench.action.openSettings''],
        Some (Inl UserCancelledError))
   \<and> snd (runPreDeployTask
      (exampleHost (Some ''build'') [buildTask] [TaskProcessEndEvent buildTask (Some 1)] None)
      emptyContext ''/proj'' None)
     = ([FetchTasks, WithProgress ''Running preDeployTask \"build\"...'', ExecuteTask buildTask,
         OnDidEndTaskProcess,
         ShowErrorMessage
           ''Errors exist after running preDeployTask \"build\". See task output for more info.''
           True [\<lparr>title = ''Deploy Anyway''\<rparr>, \<lparr>title = ''Open Settings''\<rparr>]],
        Some (Inl UserCancelledError))
   \<and> properties (fst (runPreDeployTask
      (exampleHost (Some ''build'') [buildTask] [TaskProcessEndEvent buildTask (Some 1)] None)
      emptyContext ''/proj'' None)) ''preDeployTaskResponse'' = Some ''cancel''"
proof -
  let ?h = "exampleHost (Some ''build'') [buildTask] [TaskProcessEndEvent buildTask (Some 1)]"
  let ?r = "\<lparr>taskName = Some ''build'', exitCode = Some 1, failedToFindTask = False\<rparr>"
  let ?calls = "[FetchTasks, WithProgress ''Running preDeployTask \"build\"...'',
                 ExecuteTask buildTask, OnDidEndTaskProcess]"
  have code: "exitCode ?r = Some 1" "(1::int) \<noteq> 0"
    by simp_all
  have msg: "localize ''taskFailed''
      ''Errors exist after running preDeployTask \"{0}\". See task output for more info.''
      [String_optional_string (taskName ?r)]
      = ''Errors exist after running preDeployTask \"build\". See task output for more info.''"
    by code_simp
  have snd0: "snd (tryRunPreDeployTask (?h (Some 0)) emptyContext ''/proj'' None) = (?calls, Some ?r)"
    by code_simp
  have snd1: "snd (tryRunPreDeployTask (?h (Some 1)) emptyContext ''/proj'' None) = (?calls, Some ?r)"
    by code_simp
  have sndN: "snd (tryRunPreDeployTask (?h None) emptyContext ''/proj'' None) = (?calls, Some ?r)"
    by code_simp
  have tried: "tryRunPreDeployTask (?h c) emptyContext ''/proj'' None
      = (fst (tryRunPreDeployTask (?h c) emptyContext ''/proj'' None), ?calls, Some ?r)"
    if "snd (tryRunPreDeployTask (?h c) emptyContext ''/proj'' None) = (?calls, Some ?r)" for c
    using that by (metis prod.collapse)
  have click: "clicked (?h c) = c" for c
    by (simp add: exampleHost_def)
  note at = failure_prompt_choices [OF tried code, unfolded Let_def msg click]
  from at [OF snd0] at [OF snd1] at [OF sndN]
  show ?thesis
    by (simp add: setProperty_def)
qed




end
